theory Spec2Isabelle
  imports Main
begin

section \<open>The workflow \<open>Codex Automated PR\<close> of examples/codex/jira-github.ipynb\<close>

text \<open>
  The program is the GitHub Actions workflow printed in the notebook: one job,
  \<open>codex_auto_pr\<close>, started by a \<open>workflow_dispatch\<close> event with three string inputs,
  whose steps are shell scripts and two marketplace actions. The embedding keeps the
  steps in the order of the YAML and makes the surroundings explicit:

  \<^item> the file named by \<open>$GITHUB_ENV\<close> is a string the \<open>vars\<close> step appends to, read back
    line by line after the step;
  \<^item> every call that leaves the job (curl, codex, git commit, create-pull-request) is
    appended to a trace, and what the outside answers is a field of \<open>world\<close>;
  \<^item> a step that ends with a non-zero status stops the job (no step of the workflow
    carries an \<open>if:\<close>), and a \<open>run:\<close> script stops at its first failing command
    (the runner starts it with \<open>bash -e\<close>; step 5 repeats \<open>set -e\<close>).

  An expression \<open>${{ ... }}\<close> of a \<open>run:\<close> script is replaced by its value before bash
  reads the script. In the \<open>vars\<close> step every input lands inside a double-quoted word,
  so bash reads the value by its quoting rules (\<open>unquote\<close> below). Where the value is
  such that the script is no longer the five commands written, the outcome of the step
  is left to the world.
\<close>

subsection \<open>Inputs, secrets and the answers of the outside world\<close>

record inputs =
  issue_key :: string
  issue_summary :: string
  issue_description :: string

datatype step_id =
    Checkout | SetupNode | InstallCodex | Vars | JiraInProgress | GitAuthor
  | CodexImplementCommit | Cpr | JiraInReview

text \<open>What curl meets: no HTTP exchange at all, or a response with status and body.\<close>

datatype curl_result = TransportError | Response nat string

text \<open>
  The codex CLI either ends with a non-zero status or ends normally, leaving the
  working tree changed (\<open>True\<close>) or untouched (\<open>False\<close>).
\<close>

datatype codex_result = CodexError | CodexDone bool

datatype cpr_result = CprFailed | CprOk string

text \<open>
  \<open>injected\<close> answers for the \<open>vars\<close> step when an input changes the script bash runs:
  the assignments the runner then reads from the environment file, or \<open>None\<close> when the
  step fails.
\<close>

record world =
  JIRA_BASE_URL :: string
  JIRA_EMAIL :: string
  JIRA_API_TOKEN :: string
  external_ok :: "step_id \<Rightarrow> bool"
  injected :: "inputs \<Rightarrow> (string \<times> string) list option"
  in_progress_response :: curl_result
  codex_outcome :: codex_result
  cpr_outcome :: cpr_result
  in_review_response :: curl_result
  comment_response :: curl_result

subsection \<open>What a run leaves behind\<close>

datatype call =
    Curl_POST string string string
  | Codex string
  | Git_commit string
  | Create_pull_request string string string string

record run =
  env :: "(string \<times> string) list"
  calls :: "call list"
  log :: "string list"
  pull_request_url :: "string option"

datatype conclusion = Success | Failure step_id

subsection \<open>Shell commands of the \<open>vars\<close> step\<close>

text \<open>
  Step 2 of the job:
  \<^verbatim>\<open>
    - id: vars
      run: |
        echo "ISSUE_KEY=${{ github.event.inputs.issue_key }}"        >> $GITHUB_ENV
        echo "TITLE=${{ github.event.inputs.issue_summary }}"        >> $GITHUB_ENV
        echo "RAW_DESC=${{ github.event.inputs.issue_description }}" >> $GITHUB_ENV
        DESC_CLEANED=$(echo "${{ github.event.inputs.issue_description }}" | tr '\n' ' ' | sed 's/"/'\''/g')
        echo "DESC=$DESC_CLEANED"                                    >> $GITHUB_ENV
        echo "BRANCH=codex/${{ github.event.inputs.issue_key }}"     >> $GITHUB_ENV
  \<close>
\<close>

definition newline :: char where
  "newline = CHR 0x0A"

definition space :: char where
  "space = CHR 0x20"

definition double_quote :: char where
  "double_quote = CHR 0x22"

definition apostrophe :: char where
  "apostrophe = CHR 0x27"

definition backslash :: char where
  "backslash = CHR 0x5C"

definition dollar :: char where
  "dollar = CHR 0x24"

definition backquote :: char where
  "backquote = CHR 0x60"

text \<open>
  A value pasted into \<open>"...${{ value }}"\<close> is read by bash from inside the double quotes
  (\<open>True\<close>): a double quote of the value ends the quoted stretch and the next one opens
  a new one; a backslash before \<open>$\<close>, backquote, double quote or backslash gives that
  character, before a newline gives nothing, and stays itself before anything else.
  Outside the quotes (\<open>False\<close>) letters, digits, \<open>_\<close>, \<open>-\<close> and \<open>.\<close> go on with the same
  word. The result is the word bash hands to the command.

  \<open>None\<close> is a value that does not leave the command as written: a \<open>$\<close> or a backquote
  (an expansion), any other character outside the quotes (a blank starts a new word,
  the rest starts redirections, other commands, patterns or comments), or an end outside
  the quotes or after a backslash (the closing quote of the script then opens a
  stretch, or is read as a character).
\<close>

definition unquoted_char :: "char \<Rightarrow> bool" where
  "unquoted_char c =
     (c \<in> set ''abcdefghijklmnopqrstuvwxyzABCDEFGHIJKLMNOPQRSTUVWXYZ0123456789_-.'')"

fun unquote_from :: "bool \<Rightarrow> string \<Rightarrow> string option" where
  "unquote_from True [] = Some []"
| "unquote_from False [] = None"
| "unquote_from True (c # cs) =
     (if c = double_quote then unquote_from False cs
      else if c = dollar \<or> c = backquote then None
      else if c = backslash then
        (case cs of
           [] \<Rightarrow> None
         | e # es \<Rightarrow>
             if e = newline then unquote_from True es
             else if e = dollar \<or> e = backquote \<or> e = double_quote \<or> e = backslash
             then map_option ((#) e) (unquote_from True es)
             else map_option (\<lambda>r. c # e # r) (unquote_from True es))
      else map_option ((#) c) (unquote_from True cs))"
| "unquote_from False (c # cs) =
     (if c = double_quote then unquote_from True cs
      else if unquoted_char c then map_option ((#) c) (unquote_from False cs)
      else None)"

definition unquote :: "string \<Rightarrow> string option" where
  "unquote v = unquote_from True v"

text \<open>
  \<open>echo "<word>"\<close> of bash prints the word and a newline, unless the word is a string of
  options (a dash followed by letters among \<open>n\<close>, \<open>e\<close>, \<open>E\<close>): then nothing is left to
  print, and \<open>n\<close> drops the newline as well.
\<close>

definition echo_options :: "string \<Rightarrow> bool" where
  "echo_options a =
     (case a of
        [] \<Rightarrow> False
      | c # cs \<Rightarrow> c = CHR ''-'' \<and> cs \<noteq> [] \<and>
                 list_all (\<lambda>x. x = CHR ''n'' \<or> x = CHR ''e'' \<or> x = CHR ''E'') cs)"

definition echo :: "string \<Rightarrow> string" where
  "echo a =
     (if echo_options a then (if CHR ''n'' \<in> set a then [] else [newline])
      else a @ [newline])"

text \<open>\<open>tr a b\<close> with one-character sets.\<close>

definition tr :: "char \<Rightarrow> char \<Rightarrow> string \<Rightarrow> string" where
  "tr a b = map (\<lambda>c. if c = a then b else c)"

text \<open>
  \<open>sed 's/a/b/g'\<close> for a one-character pattern and replacement: sed edits line by line
  and keeps the line ends, so on the whole stream it replaces every \<open>a\<close>.
\<close>

definition sed_s_g :: "char \<Rightarrow> char \<Rightarrow> string \<Rightarrow> string" where
  "sed_s_g a b = map (\<lambda>c. if c = a then b else c)"

text \<open>Command substitution \<open>$(...)\<close> drops the newlines at the end of the output.\<close>

definition command_substitution :: "string \<Rightarrow> string" where
  "command_substitution out = rev (dropWhile (\<lambda>c. c = newline) (rev out))"

text \<open>
  The pipeline behind \<open>echo\<close>, then the whole command substitution, for the word that
  bash hands to \<open>echo\<close>.
\<close>

definition sanitize :: "string \<Rightarrow> string" where
  "sanitize stdin = sed_s_g double_quote apostrophe (tr newline space stdin)"

definition DESC_CLEANED :: "string \<Rightarrow> string" where
  "DESC_CLEANED word = command_substitution (sanitize (echo word))"


definition branch_name :: "string \<Rightarrow> string" where
  "branch_name key = ''codex/'' @ key"

text \<open>
  The five \<open>echo ... >> $GITHUB_ENV\<close> of the step, in the order of the script, for the
  words bash reads from the three inputs (\<open>pasted_inputs\<close>).
\<close>

definition vars_env_file :: "inputs \<Rightarrow> string" where
  "vars_env_file i =
     echo (''ISSUE_KEY='' @ issue_key i) @
     echo (''TITLE='' @ issue_summary i) @
     echo (''RAW_DESC='' @ issue_description i) @
     echo (''DESC='' @ DESC_CLEANED (issue_description i)) @
     echo (''BRANCH='' @ branch_name (issue_key i))"

definition pasted_inputs :: "inputs \<Rightarrow> inputs option" where
  "pasted_inputs i =
     (case unquote (issue_key i) of
        None \<Rightarrow> None
      | Some k \<Rightarrow>
          (case unquote (issue_summary i) of
             None \<Rightarrow> None
           | Some t \<Rightarrow>
               (case unquote (issue_description i) of
                  None \<Rightarrow> None
                | Some d \<Rightarrow>
                    Some \<lparr>issue_key = k, issue_summary = t, issue_description = d\<rparr>)))"

subsection \<open>The runner reading the environment file\<close>

text \<open>
  After a step the runner reads the environment file line by line and skips empty
  lines. A line whose first \<open>=\<close> comes before any \<open><<\<close> is an assignment \<open>NAME=value\<close>. A
  line whose first \<open><<\<close> comes before any \<open>=\<close> opens the multi-line form
  \<open>NAME<<DELIMITER\<close>: the value is the text of the following lines up to a line equal
  to the delimiter. Any other line, an empty name or delimiter in the multi-line form,
  and a missing delimiter line make the step fail. A later assignment to a name
  replaces an earlier one.
\<close>

fun lines_of :: "string \<Rightarrow> string list" where
  "lines_of [] = []"
| "lines_of (c # cs) =
     (if c = newline then [] # lines_of cs
      else (case lines_of cs of [] \<Rightarrow> [[c]] | l # ls \<Rightarrow> (c # l) # ls))"

datatype env_line = Assignment string string | Heredoc string string | Invalid_format

text \<open>\<open>classify_from name rest\<close>: \<open>name\<close> is the part of the line already passed, reversed.\<close>

fun classify_from :: "string \<Rightarrow> string \<Rightarrow> env_line" where
  "classify_from name [] = Invalid_format"
| "classify_from name (c # cs) =
     (if c = CHR ''='' then Assignment (rev name) cs
      else if c = CHR ''<'' \<and> cs \<noteq> [] \<and> hd cs = CHR ''<''
      then (if name = [] \<or> tl cs = [] then Invalid_format else Heredoc (rev name) (tl cs))
      else classify_from (c # name) cs)"

definition classify :: "string \<Rightarrow> env_line" where
  "classify l = classify_from [] l"

fun join_lines :: "string list \<Rightarrow> string" where
  "join_lines [] = []"
| "join_lines [l] = l"
| "join_lines (l # ls) = l @ newline # join_lines ls"

text \<open>
  The first argument is \<open>None\<close> between assignments, and name, delimiter and the lines
  read so far inside a multi-line value.
\<close>

fun read_assignments ::
  "(string \<times> string \<times> string list) option \<Rightarrow> string list \<Rightarrow> (string \<times> string) list option"
where
  "read_assignments None [] = Some []"
| "read_assignments (Some h) [] = None"
| "read_assignments None (l # ls) =
     (if l = [] then read_assignments None ls
      else (case classify l of
              Assignment n v \<Rightarrow> map_option ((#) (n, v)) (read_assignments None ls)
            | Heredoc n d \<Rightarrow> read_assignments (Some (n, d, [])) ls
            | Invalid_format \<Rightarrow> None))"
| "read_assignments (Some (n, d, body)) (l # ls) =
     (if l = d then map_option ((#) (n, join_lines body)) (read_assignments None ls)
      else read_assignments (Some (n, d, body @ [l])) ls)"

definition read_env_file :: "string \<Rightarrow> (string \<times> string) list option" where
  "read_env_file text = read_assignments None (lines_of text)"

text \<open>\<open>${{ env.NAME }}\<close> and \<open>$NAME\<close>: the last assignment, the empty string when unset.\<close>

definition env_get :: "(string \<times> string) list \<Rightarrow> string \<Rightarrow> string" where
  "env_get e n = (case map_of (rev e) n of None \<Rightarrow> [] | Some v \<Rightarrow> v)"

subsection \<open>curl\<close>

text \<open>
  The exit status of curl: a transport error is always a failure; an HTTP response is a
  failure only under \<open>--fail\<close> and a status of 400 or more. Every curl of the workflow is
  \<open>curl -sS -X POST\<close>, without \<open>--fail\<close>; \<open>-sS\<close> leaves the response body on standard output.
\<close>

fun curl_succeeds :: "bool \<Rightarrow> curl_result \<Rightarrow> bool" where
  "curl_succeeds fail_flag TransportError = False"
| "curl_succeeds fail_flag (Response status body) = (if fail_flag then status < 400 else True)"

fun curl_stdout :: "curl_result \<Rightarrow> string list" where
  "curl_stdout TransportError = []"
| "curl_stdout (Response status body) = [body]"

definition transition_data :: "string \<Rightarrow> string" where
  \<open>transition_data tid = ''{"transition":{"id":"'' @ tid @ ''"}}''\<close>

definition comment_data :: "string \<Rightarrow> string" where
  \<open>comment_data pr_url =
     ''{"body":{"type":"doc","version":1,"content":[{"type":"paragraph","content":[{"type":"text","text":"PR created: ''
       @ pr_url @ ''"}]}]}}''\<close>

definition transitions_url :: "world \<Rightarrow> string \<Rightarrow> string" where
  "transitions_url w key = JIRA_BASE_URL w @ ''/rest/api/3/issue/'' @ key @ ''/transitions''"

definition comment_url :: "world \<Rightarrow> string \<Rightarrow> string" where
  "comment_url w key = JIRA_BASE_URL w @ ''/rest/api/3/issue/'' @ key @ ''/comment''"

definition jira_user :: "world \<Rightarrow> string" where
  "jira_user w = JIRA_EMAIL w @ '':'' @ JIRA_API_TOKEN w"

subsection \<open>Texts built by steps 5 and 6\<close>

definition codex_instruction :: "(string \<times> string) list \<Rightarrow> string" where
  "codex_instruction e =
     ''Implement JIRA ticket '' @ env_get e ''ISSUE_KEY'' @ '': '' @ env_get e ''TITLE''
       @ ''. '' @ env_get e ''DESC''"

definition commit_message :: "(string \<times> string) list \<Rightarrow> string" where
  "commit_message e = ''feat('' @ env_get e ''ISSUE_KEY'' @ ''): '' @ env_get e ''TITLE''"

definition pr_title :: "(string \<times> string) list \<Rightarrow> string" where
  "pr_title e = env_get e ''TITLE'' @ '' ('' @ env_get e ''ISSUE_KEY'' @ '')''"

definition pr_body :: "(string \<times> string) list \<Rightarrow> string" where
  "pr_body e =
     ''Auto-generated by Codex for JIRA **'' @ env_get e ''ISSUE_KEY'' @ ''**.'' @ [newline]
       @ ''---'' @ [newline] @ env_get e ''DESC'' @ [newline]"

subsection \<open>The steps\<close>

text \<open>
  Each step returns whether it succeeded and the run as it leaves it. Steps 0, 1 and 4
  (checkout, Node and codex installation, git author) touch nothing the job looks at
  later; whether they succeed is the world's.

  The \<open>vars\<close> step succeeds when the runner accepts the environment file it wrote.
\<close>

definition vars_outcome :: "world \<Rightarrow> inputs \<Rightarrow> (string \<times> string) list option" where
  "vars_outcome w i =
     (case pasted_inputs i of
        None \<Rightarrow> injected w i
      | Some words \<Rightarrow> read_env_file (vars_env_file words))"

definition step_vars :: "world \<Rightarrow> inputs \<Rightarrow> run \<Rightarrow> bool \<times> run" where
  "step_vars w i r =
     (case vars_outcome w i of
        None \<Rightarrow> (False, r)
      | Some kvs \<Rightarrow> (True, r\<lparr>env := env r @ kvs\<rparr>))"

text \<open>
  Step 3, the transition to In Progress. Its exit status is that of curl, and the
  response body goes to the log of the step.
  \<^verbatim>\<open>
      run: |
        curl -sS -X POST \
          --url   "$JIRA_BASE_URL/rest/api/3/issue/$ISSUE_KEY/transitions" \
          --user  "$JIRA_EMAIL:$JIRA_API_TOKEN" \
          --header 'Content-Type: application/json' \
          --data  '{"transition":{"id":"21"}}'
  \<close>
\<close>

definition step_in_progress :: "world \<Rightarrow> run \<Rightarrow> bool \<times> run" where
  "step_in_progress w r =
     (curl_succeeds False (in_progress_response w),
      r\<lparr>calls := calls r @
            [Curl_POST (transitions_url w (env_get (env r) ''ISSUE_KEY'')) (jira_user w)
               (transition_data ''21'')],
         log := log r @ curl_stdout (in_progress_response w)\<rparr>)"

text \<open>
  Step 5. Under \<open>set -e\<close> a failing codex ends the script before the commit, and
  \<open>git commit\<close> fails when codex left nothing to commit.
  \<^verbatim>\<open>
      run: |
        set -e
        codex --approval-mode full-auto --no-terminal --quiet \
              "Implement JIRA ticket $ISSUE_KEY: $TITLE. $DESC"

        git add -A
        git commit -m "feat($ISSUE_KEY): $TITLE"
  \<close>
\<close>

definition step_codex :: "world \<Rightarrow> run \<Rightarrow> bool \<times> run" where
  "step_codex w r =
     (let r1 = r\<lparr>calls := calls r @ [Codex (codex_instruction (env r))]\<rparr> in
      case codex_outcome w of
        CodexError \<Rightarrow> (False, r1)
      | CodexDone changed \<Rightarrow>
          if changed
          then (True, r1\<lparr>calls := calls r1 @ [Git_commit (commit_message (env r))]\<rparr>)
          else (False, r1))"

text \<open>
  Step 6, the action that pushes the branch and opens the pull request; on success its
  output \<open>pull-request-url\<close> is set.
  \<^verbatim>\<open>
    - id: cpr
      uses: peter-evans/create-pull-request@v6
      with:
        token:  ${{ secrets.GITHUB_TOKEN }}
        base:   main
        branch: ${{ env.BRANCH }}
        title:  "${{ env.TITLE }} (${{ env.ISSUE_KEY }})"
        body: |
          Auto-generated by Codex for JIRA **${{ env.ISSUE_KEY }}**.
          ---
          ${{ env.DESC }}
  \<close>
\<close>

definition step_cpr :: "world \<Rightarrow> run \<Rightarrow> bool \<times> run" where
  "step_cpr w r =
     (let r1 = r\<lparr>calls := calls r @
                  [Create_pull_request ''main'' (env_get (env r) ''BRANCH'')
                     (pr_title (env r)) (pr_body (env r))]\<rparr> in
      case cpr_outcome w of
        CprFailed \<Rightarrow> (False, r1)
      | CprOk url \<Rightarrow> (True, r1\<lparr>pull_request_url := Some url\<rparr>))"

text \<open>
  Step 7: the transition to In Review, then the comment with the link. The script runs
  under \<open>bash -e\<close>, so a failing first curl ends it before the second.
  \<^verbatim>\<open>
      env:
        PR_URL:         ${{ steps.cpr.outputs.pull-request-url }}
      run: |
        # Status transition
        curl -sS -X POST \
          --url   "$JIRA_BASE_URL/rest/api/3/issue/$ISSUE_KEY/transitions" \
          --user  "$JIRA_EMAIL:$JIRA_API_TOKEN" \
          --header 'Content-Type: application/json' \
          --data  '{"transition":{"id":"31"}}'

        # Comment with PR link
        curl -sS -X POST \
          --url   "$JIRA_BASE_URL/rest/api/3/issue/$ISSUE_KEY/comment" \
          --user  "$JIRA_EMAIL:$JIRA_API_TOKEN" \
          --header 'Content-Type: application/json' \
          --data  "{\"body\":{\"type\":\"doc\",\"version\":1,\"content\":[{\"type\":\"paragraph\",\"content\":[{\"type\":\"text\",\"text\":\"PR created: $PR_URL\"}]}]}}"
  \<close>
\<close>

definition PR_URL :: "run \<Rightarrow> string" where
  "PR_URL r = (case pull_request_url r of None \<Rightarrow> [] | Some url \<Rightarrow> url)"

definition step_in_review :: "world \<Rightarrow> run \<Rightarrow> bool \<times> run" where
  "step_in_review w r =
     (let r1 = r\<lparr>calls := calls r @
                  [Curl_POST (transitions_url w (env_get (env r) ''ISSUE_KEY'')) (jira_user w)
                     (transition_data ''31'')],
                log := log r @ curl_stdout (in_review_response w)\<rparr> in
      if curl_succeeds False (in_review_response w)
      then (curl_succeeds False (comment_response w),
            r1\<lparr>calls := calls r1 @
                  [Curl_POST (comment_url w (env_get (env r) ''ISSUE_KEY'')) (jira_user w)
                     (comment_data (PR_URL r))],
               log := log r1 @ curl_stdout (comment_response w)\<rparr>)
      else (False, r1))"

fun exec_step :: "world \<Rightarrow> inputs \<Rightarrow> step_id \<Rightarrow> run \<Rightarrow> bool \<times> run" where
  "exec_step w i Checkout r = (external_ok w Checkout, r)"
| "exec_step w i SetupNode r = (external_ok w SetupNode, r)"
| "exec_step w i InstallCodex r = (external_ok w InstallCodex, r)"
| "exec_step w i Vars r = step_vars w i r"
| "exec_step w i JiraInProgress r = step_in_progress w r"
| "exec_step w i GitAuthor r = (external_ok w GitAuthor, r)"
| "exec_step w i CodexImplementCommit r = step_codex w r"
| "exec_step w i Cpr r = step_cpr w r"
| "exec_step w i JiraInReview r = step_in_review w r"

subsection \<open>The job\<close>

definition steps :: "step_id list" where
  "steps = [Checkout, SetupNode, InstallCodex, Vars, JiraInProgress, GitAuthor,
            CodexImplementCommit, Cpr, JiraInReview]"

fun run_steps :: "world \<Rightarrow> inputs \<Rightarrow> step_id list \<Rightarrow> run \<Rightarrow> conclusion \<times> run" where
  "run_steps w i [] r = (Success, r)"
| "run_steps w i (s # ss) r =
     (case exec_step w i s r of
        (True, r') \<Rightarrow> run_steps w i ss r'
      | (False, r') \<Rightarrow> (Failure s, r'))"

definition new_run :: run where
  "new_run = \<lparr>env = [], calls = [], log = [], pull_request_url = None\<rparr>"

definition codex_auto_pr :: "world \<Rightarrow> inputs \<Rightarrow> conclusion \<times> run" where
  "codex_auto_pr w i = run_steps w i steps new_run"

subsection \<open>Dispatch\<close>

text \<open>
  The workflow is started by \<open>on: workflow_dispatch\<close> and declares no \<open>concurrency:\<close>
  group, and no step looks at other runs: a dispatch event starts a run of the job
  whatever runs are in flight. A run is active from its dispatch until its job ends.
\<close>

datatype run_status = Active | Finished conclusion

type_synonym runs = "(inputs \<times> run_status) list"

definition workflow_dispatch :: "inputs \<Rightarrow> runs \<Rightarrow> runs" where
  "workflow_dispatch i rs = rs @ [(i, Active)]"

definition finish_run :: "world \<Rightarrow> nat \<Rightarrow> runs \<Rightarrow> runs" where
  "finish_run w n rs =
     (if n < length rs \<and> snd (rs ! n) = Active
      then rs[n := (fst (rs ! n), Finished (fst (codex_auto_pr w (fst (rs ! n)))))]
      else rs)"

definition active_runs :: "string \<Rightarrow> runs \<Rightarrow> nat" where
  "active_runs key rs = length (filter (\<lambda>(i, s). issue_key i = key \<and> s = Active) rs)"

subsection \<open>Reading a trace\<close>


subsection \<open>Notions of the specification\<close>



subsection \<open>Concrete inputs\<close>

definition example_world :: world where
  "example_world =
     \<lparr>JIRA_BASE_URL = ''https://acme.atlassian.net'',
      JIRA_EMAIL = ''bot@acme.io'',
      JIRA_API_TOKEN = ''secret'',
      external_ok = (\<lambda>s. True),
      injected = (\<lambda>i. None),
      in_progress_response = Response 204 [],
      codex_outcome = CodexDone True,
      cpr_outcome = CprOk ''https://github.com/acme/app/pull/7'',
      in_review_response = Response 204 [],
      comment_response = Response 201 ''{}''\<rparr>"

definition example_inputs :: inputs where
  "example_inputs =
     \<lparr>issue_key = ''PROJ-123'',
      issue_summary = ''Fix null check'',
      issue_description = ''Crashes on null input''\<rparr>"


section \<open>Properties\<close>

subsection \<open>The sanitization pipeline and the environment file\<close>

lemma echo_options_simps [simp]:
  "echo_options [] = False"
  "echo_options (c # cs) =
     (c = CHR ''-'' \<and> cs \<noteq> [] \<and>
      list_all (\<lambda>x. x = CHR ''n'' \<or> x = CHR ''e'' \<or> x = CHR ''E'') cs)"
  by (simp_all add: echo_options_def)

lemma echo_plain: "\<not> echo_options a \<Longrightarrow> echo a = a @ [newline]"
  by (simp add: echo_def)

lemma echo_options_chars:
  "echo_options a \<Longrightarrow> set a \<subseteq> {CHR ''-'', CHR ''n'', CHR ''e'', CHR ''E''}"
  by (cases a) (auto simp: echo_options_def list_all_iff)

lemma DESC_CLEANED_eq:
  "\<not> echo_options d \<Longrightarrow>
   DESC_CLEANED d =
     map (\<lambda>c. if c = newline then space else if c = double_quote then apostrophe else c) d
       @ [space]"
  by (simp add: DESC_CLEANED_def command_substitution_def sanitize_def echo_plain tr_def
      sed_s_g_def newline_def space_def double_quote_def apostrophe_def)

lemma DESC_CLEANED_options:
  "echo_options d \<Longrightarrow> DESC_CLEANED d = (if CHR ''n'' \<in> set d then [] else [space])"
  by (simp add: DESC_CLEANED_def command_substitution_def sanitize_def echo_def tr_def
      sed_s_g_def newline_def space_def double_quote_def apostrophe_def)

lemma DESC_CLEANED_clean:
  "double_quote \<notin> set (DESC_CLEANED d) \<and> newline \<notin> set (DESC_CLEANED d)"
  by (cases "echo_options d")
     (auto simp: DESC_CLEANED_eq DESC_CLEANED_options newline_def space_def double_quote_def
        apostrophe_def)

lemma lines_of_echo_not_Nil: "lines_of (s @ [newline]) \<noteq> []"
  by (induction s) (auto split: list.splits)

lemma lines_of_append: "lines_of (s @ newline # t) = lines_of (s @ [newline]) @ lines_of t"
proof (induction s)
  case Nil
  show ?case by simp
next
  case (Cons c s)
  obtain l ls where e: "lines_of (s @ [newline]) = l # ls"
    using lines_of_echo_not_Nil [of s] by (cases "lines_of (s @ [newline])") auto
  have f: "lines_of (s @ newline # t) = l # ls @ lines_of t"
    by (simp only: Cons.IH e append_Cons)
  show ?case
    by (simp only: append_Cons lines_of.simps e f list.case
        if_distrib [of "\<lambda>x. x @ lines_of t"])
qed

lemma lines_of_echo_append: "lines_of (echo s @ t) = lines_of (echo s) @ lines_of t"
  using lines_of_append [of s t] by (simp add: echo_def)

lemma lines_of_newline_free: "newline \<notin> set s \<Longrightarrow> lines_of (s @ [newline]) = [s]"
  by (induction s) auto

lemma lines_of_single:
  "newline \<notin> set s \<Longrightarrow> \<not> echo_options s \<Longrightarrow> lines_of (echo s) = [s]"
  by (simp add: echo_plain lines_of_newline_free)

lemma length_lines_of: "length (lines_of (s @ [newline])) = Suc (count_list s newline)"
proof (induction s)
  case Nil
  show ?case by simp
next
  case (Cons c s)
  then show ?case
    using lines_of_echo_not_Nil [of s] by (cases "lines_of (s @ [newline])") auto
qed

lemma length_lines_of_echo:
  "\<not> echo_options s \<Longrightarrow> length (lines_of (echo s)) = Suc (count_list s newline)"
  by (simp add: echo_plain length_lines_of)

lemma lines_of_vars_env_file:
  "lines_of (vars_env_file i) =
     lines_of (echo (''ISSUE_KEY='' @ issue_key i)) @
     lines_of (echo (''TITLE='' @ issue_summary i)) @
     lines_of (echo (''RAW_DESC='' @ issue_description i)) @
     lines_of (echo (''DESC='' @ DESC_CLEANED (issue_description i))) @
     lines_of (echo (''BRANCH='' @ branch_name (issue_key i)))"
  unfolding vars_env_file_def
  by (simp only: lines_of_echo_append)

text \<open>A value without double quote, dollar, backquote and backslash is read as it is.\<close>

lemmas char_defs =
  newline_def space_def double_quote_def apostrophe_def backslash_def dollar_def backquote_def

lemma unquote_plain:
  "double_quote \<notin> set v \<Longrightarrow> dollar \<notin> set v \<Longrightarrow> backquote \<notin> set v \<Longrightarrow>
     backslash \<notin> set v \<Longrightarrow> unquote v = Some v"
  unfolding unquote_def by (induction v) auto

lemma example_pasted: "pasted_inputs example_inputs = Some example_inputs"
  by (simp add: pasted_inputs_def unquote_def example_inputs_def char_defs)

lemma vars_outcome_pasted:
  "pasted_inputs i = Some words \<Longrightarrow> vars_outcome w i = read_env_file (vars_env_file words)"
  by (simp add: vars_outcome_def)

lemma single_line_env:
  assumes "newline \<notin> set (issue_key i)" and "newline \<notin> set (issue_summary i)"
    and "newline \<notin> set (issue_description i)"
  shows "read_env_file (vars_env_file i) =
     Some [(''ISSUE_KEY'', issue_key i), (''TITLE'', issue_summary i),
           (''RAW_DESC'', issue_description i), (''DESC'', DESC_CLEANED (issue_description i)),
           (''BRANCH'', branch_name (issue_key i))]"
proof -
  have d: "newline \<notin> set (DESC_CLEANED (issue_description i))"
    by (simp add: DESC_CLEANED_clean)
  have "lines_of (vars_env_file i) =
     [''ISSUE_KEY='' @ issue_key i, ''TITLE='' @ issue_summary i,
      ''RAW_DESC='' @ issue_description i, ''DESC='' @ DESC_CLEANED (issue_description i),
      ''BRANCH='' @ branch_name (issue_key i)]"
    using assms d
    by (simp add: lines_of_vars_env_file lines_of_single branch_name_def newline_def)
  then show ?thesis
    by (simp add: read_env_file_def classify_def)
qed

lemma example_env:
  "read_env_file (vars_env_file example_inputs) =
     Some [(''ISSUE_KEY'', ''PROJ-123''), (''TITLE'', ''Fix null check''),
           (''RAW_DESC'', ''Crashes on null input''), (''DESC'', ''Crashes on null input ''),
           (''BRANCH'', ''codex/PROJ-123'')]"
  by (simp add: read_env_file_def vars_env_file_def example_inputs_def echo_def DESC_CLEANED_eq
      branch_name_def classify_def newline_def space_def double_quote_def apostrophe_def)

lemma example_vars:
  "vars_outcome w example_inputs =
     Some [(''ISSUE_KEY'', ''PROJ-123''), (''TITLE'', ''Fix null check''),
           (''RAW_DESC'', ''Crashes on null input''), (''DESC'', ''Crashes on null input ''),
           (''BRANCH'', ''codex/PROJ-123'')]"
  by (simp add: vars_outcome_pasted [OF example_pasted] example_env)

subsection \<open>The job, step by step\<close>

lemmas step_defs =
  step_vars_def step_in_progress_def step_codex_def step_cpr_def step_in_review_def

lemmas text_defs =
  env_get_def codex_instruction_def commit_message_def pr_title_def pr_body_def
  transitions_url_def comment_url_def jira_user_def PR_URL_def

lemmas job_splits =
  if_splits option.splits bool.splits codex_result.splits cpr_result.splits

lemma curl_succeeds_no_fail [simp]: "curl_succeeds False x = (x \<noteq> TransportError)"
  by (cases x) auto

lemma job_prefix:
  "codex_auto_pr w i =
     (if \<not> external_ok w Checkout then (Failure Checkout, new_run)
      else if \<not> external_ok w SetupNode then (Failure SetupNode, new_run)
      else if \<not> external_ok w InstallCodex then (Failure InstallCodex, new_run)
      else case vars_outcome w i of
             None \<Rightarrow> (Failure Vars, new_run)
           | Some kvs \<Rightarrow>
               run_steps w i [JiraInProgress, GitAuthor, CodexImplementCommit, Cpr, JiraInReview]
                 (new_run\<lparr>env := kvs\<rparr>))"
  by (simp add: codex_auto_pr_def steps_def step_vars_def new_run_def split: option.splits)

text \<open>The run in which every step succeeds.\<close>

lemma example_run:
  "codex_auto_pr example_world example_inputs =
     (Success,
      \<lparr>env = [(''ISSUE_KEY'', ''PROJ-123''), (''TITLE'', ''Fix null check''),
           (''RAW_DESC'', ''Crashes on null input''), (''DESC'', ''Crashes on null input ''),
           (''BRANCH'', ''codex/PROJ-123'')],
       calls = [Curl_POST ''https://acme.atlassian.net/rest/api/3/issue/PROJ-123/transitions''
                  ''bot@acme.io:secret'' (transition_data ''21''),
                Codex ''Implement JIRA ticket PROJ-123: Fix null check. Crashes on null input '',
                Git_commit ''feat(PROJ-123): Fix null check'',
                Create_pull_request ''main'' ''codex/PROJ-123'' ''Fix null check (PROJ-123)''
                  ''Auto-generated by Codex for JIRA **PROJ-123**.\<newline>---\<newline>Crashes on null input \<newline>'',
                Curl_POST ''https://acme.atlassian.net/rest/api/3/issue/PROJ-123/transitions''
                  ''bot@acme.io:secret'' (transition_data ''31''),
                Curl_POST ''https://acme.atlassian.net/rest/api/3/issue/PROJ-123/comment''
                  ''bot@acme.io:secret'' (comment_data ''https://github.com/acme/app/pull/7'')],
       log = [[], [], ''{}''],
       pull_request_url = Some ''https://github.com/acme/app/pull/7''\<rparr>)"
  by (simp add: job_prefix example_vars new_run_def step_defs example_world_def text_defs
      newline_def)

section \<open>The claims\<close>

subsection \<open>C1: runs of one ticket\<close>

text \<open>
  C1 as the specification has it fails: nothing rejects a second trigger. Two dispatch
  events for \<open>PROJ-123\<close> leave two active runs of that ticket; the count drops only
  when a job ends, and both jobs run to success.
\<close>

theorem two_active_runs_same_ticket:
  "active_runs ''PROJ-123''
     (workflow_dispatch example_inputs (workflow_dispatch example_inputs [])) = 2 \<and>
   active_runs ''PROJ-123''
     (finish_run example_world 0
        (workflow_dispatch example_inputs (workflow_dispatch example_inputs []))) = 1 \<and>
   finish_run example_world 1
     (finish_run example_world 0
        (workflow_dispatch example_inputs (workflow_dispatch example_inputs []))) =
     [(example_inputs, Finished Success), (example_inputs, Finished Success)]"
  by (simp add: active_runs_def workflow_dispatch_def finish_run_def example_run)
     (simp add: example_inputs_def)

text \<open>
  C1, amended: every dispatch event starts a run, whatever runs are active. The number
  of active runs of the event's ticket grows by one, and no run is turned away.
\<close>

theorem dispatch_always_starts_run:
  "active_runs (issue_key i) (workflow_dispatch i rs) = Suc (active_runs (issue_key i) rs) \<and>
   length (workflow_dispatch i rs) = Suc (length rs)"
  by (simp add: active_runs_def workflow_dispatch_def)

subsection \<open>C2: a failed transition to In Progress\<close>




subsection \<open>C3: sanitizing the description\<close>





subsection \<open>C4: the agent fails\<close>



subsection \<open>C5: the transition to In Review fails after the pull request\<close>




subsection \<open>C6: HTTP responses outside 200..299\<close>




subsection \<open>C7: the branch name\<close>

text \<open>
  C7 fails on two triggers for \<open>PROJ-123\<close> whose descriptions differ. The second
  description has the further lines \<open>BRANCH=evil\<close> and \<open>X<<BRANCH=codex/PROJ-123\<close>. The raw
  description is written to the environment file, where its last line opens a
  multi-line value that ends at the \<open>BRANCH\<close> line of the script: that line is read as
  the delimiter, not as an assignment, and the \<open>BRANCH\<close> line of the description stands.
  The first run asks for the pull request from \<open>codex/PROJ-123\<close>, the second from \<open>evil\<close>.
\<close>

theorem head_branch_taken_from_description:
  "issue_key
      (example_inputs\<lparr>issue_description :=
         ''Guard the parser\<newline>BRANCH=evil\<newline>X<<BRANCH=codex/PROJ-123''\<rparr>)
     = issue_key example_inputs \<and>
   [x \<leftarrow> calls (snd (codex_auto_pr example_world example_inputs)).
      \<exists>b h t d. x = Create_pull_request b h t d] =
     [Create_pull_request ''main'' ''codex/PROJ-123'' ''Fix null check (PROJ-123)''
        ''Auto-generated by Codex for JIRA **PROJ-123**.\<newline>---\<newline>Crashes on null input \<newline>''] \<and>
   [x \<leftarrow> calls (snd (codex_auto_pr example_world
        (example_inputs\<lparr>issue_description :=
           ''Guard the parser\<newline>BRANCH=evil\<newline>X<<BRANCH=codex/PROJ-123''\<rparr>))).
      \<exists>b h t d. x = Create_pull_request b h t d] =
     [Create_pull_request ''main'' ''evil'' ''Fix null check (PROJ-123)''
        ''Auto-generated by Codex for JIRA **PROJ-123**.\<newline>---\<newline>\<newline>'']"
proof -
  let ?i = "example_inputs\<lparr>issue_description :=
              ''Guard the parser\<newline>BRANCH=evil\<newline>X<<BRANCH=codex/PROJ-123''\<rparr>"
  have p: "pasted_inputs ?i = Some ?i"
    by (simp add: pasted_inputs_def unquote_def example_inputs_def char_defs)
  have "read_env_file (vars_env_file ?i) =
     Some [(''ISSUE_KEY'', ''PROJ-123''), (''TITLE'', ''Fix null check''),
           (''RAW_DESC'', ''Guard the parser''), (''BRANCH'', ''evil''),
           (''X'', ''DESC=Guard the parser BRANCH=evil X<<BRANCH=codex/PROJ-123 '')]"
    by (simp add: read_env_file_def vars_env_file_def example_inputs_def echo_def DESC_CLEANED_eq
        branch_name_def classify_def char_defs)
  then have "vars_outcome example_world ?i =
     Some [(''ISSUE_KEY'', ''PROJ-123''), (''TITLE'', ''Fix null check''),
           (''RAW_DESC'', ''Guard the parser''), (''BRANCH'', ''evil''),
           (''X'', ''DESC=Guard the parser BRANCH=evil X<<BRANCH=codex/PROJ-123 '')]"
    by (simp add: vars_outcome_pasted [OF p])
  then have
    "[x \<leftarrow> calls (snd (codex_auto_pr example_world ?i)).
        \<exists>b h t d. x = Create_pull_request b h t d] =
     [Create_pull_request ''main'' ''evil'' ''Fix null check (PROJ-123)''
        ''Auto-generated by Codex for JIRA **PROJ-123**.\<newline>---\<newline>\<newline>'']"
    by (simp add: job_prefix new_run_def step_defs example_world_def text_defs newline_def)
  then show ?thesis
    by (simp add: example_run)
qed

subsection \<open>C8: the transition identifiers\<close>



subsection \<open>C9: commit and pull request on agent success\<close>

text \<open>
  On inputs without line breaks that bash reads as they are, the commit and the pull
  request are what C9 says, and the head branch is what C7 says.
\<close>

lemma run_on_single_line_inputs:
  assumes "newline \<notin> set (issue_key i)" and "newline \<notin> set (issue_summary i)"
    and "newline \<notin> set (issue_description i)"
    and "codex_auto_pr w i = (c, r)"
    and "Git_commit m \<in> set (calls r)"
    and "pasted_inputs i = Some i"
  shows "m = ''feat('' @ issue_key i @ ''): '' @ issue_summary i \<and>
         [x \<leftarrow> calls r. \<exists>b h t d. x = Create_pull_request b h t d] =
           [Create_pull_request ''main'' (''codex/'' @ issue_key i)
              (issue_summary i @ '' ('' @ issue_key i @ '')'')
              (''Auto-generated by Codex for JIRA **'' @ issue_key i @ ''**.'' @ [newline]
                 @ ''---'' @ [newline] @ DESC_CLEANED (issue_description i) @ [newline])]"
  using assms(4,5)
  by (auto simp: job_prefix vars_outcome_pasted [OF assms(6)] single_line_env [OF assms(1-3)]
      new_run_def step_defs Let_def text_defs branch_name_def split: job_splits)

text \<open>
  C9 fails on a description with the further lines \<open>ISSUE_KEY=OTHER-9\<close> and
  \<open>TITLE=Bump version\<close>: the raw description is written to the environment file after
  the \<open>ISSUE_KEY\<close> and \<open>TITLE\<close> lines, so its lines replace both. The commit message and
  the pull request title carry \<open>OTHER-9\<close> and \<open>Bump version\<close>, while the trigger is for
  \<open>PROJ-123\<close> with title \<open>Fix null check\<close>; the head branch is still that of \<open>PROJ-123\<close>.
\<close>

theorem key_and_title_taken_from_description:
  "issue_key
      (example_inputs\<lparr>issue_description :=
         ''Guard the parser\<newline>ISSUE_KEY=OTHER-9\<newline>TITLE=Bump version''\<rparr>)
     = ''PROJ-123'' \<and>
   issue_summary
      (example_inputs\<lparr>issue_description :=
         ''Guard the parser\<newline>ISSUE_KEY=OTHER-9\<newline>TITLE=Bump version''\<rparr>)
     = ''Fix null check'' \<and>
   calls (snd (codex_auto_pr example_world
      (example_inputs\<lparr>issue_description :=
         ''Guard the parser\<newline>ISSUE_KEY=OTHER-9\<newline>TITLE=Bump version''\<rparr>))) =
     [Curl_POST ''https://acme.atlassian.net/rest/api/3/issue/OTHER-9/transitions''
        ''bot@acme.io:secret'' (transition_data ''21''),
      Codex ''Implement JIRA ticket OTHER-9: Bump version. Guard the parser ISSUE_KEY=OTHER-9 TITLE=Bump version '',
      Git_commit ''feat(OTHER-9): Bump version'',
      Create_pull_request ''main'' ''codex/PROJ-123'' ''Bump version (OTHER-9)''
        ''Auto-generated by Codex for JIRA **OTHER-9**.\<newline>---\<newline>Guard the parser ISSUE_KEY=OTHER-9 TITLE=Bump version \<newline>'',
      Curl_POST ''https://acme.atlassian.net/rest/api/3/issue/OTHER-9/transitions''
        ''bot@acme.io:secret'' (transition_data ''31''),
      Curl_POST ''https://acme.atlassian.net/rest/api/3/issue/OTHER-9/comment''
        ''bot@acme.io:secret'' (comment_data ''https://github.com/acme/app/pull/7'')]"
proof -
  let ?i = "example_inputs\<lparr>issue_description :=
              ''Guard the parser\<newline>ISSUE_KEY=OTHER-9\<newline>TITLE=Bump version''\<rparr>"
  have p: "pasted_inputs ?i = Some ?i"
    by (simp add: pasted_inputs_def unquote_def example_inputs_def char_defs)
  have "read_env_file (vars_env_file ?i) =
     Some [(''ISSUE_KEY'', ''PROJ-123''), (''TITLE'', ''Fix null check''),
           (''RAW_DESC'', ''Guard the parser''), (''ISSUE_KEY'', ''OTHER-9''),
           (''TITLE'', ''Bump version''),
           (''DESC'', ''Guard the parser ISSUE_KEY=OTHER-9 TITLE=Bump version ''),
           (''BRANCH'', ''codex/PROJ-123'')]"
    by (simp add: read_env_file_def vars_env_file_def example_inputs_def echo_def DESC_CLEANED_eq
      branch_name_def classify_def newline_def space_def double_quote_def
      apostrophe_def)
  then have "vars_outcome example_world ?i =
     Some [(''ISSUE_KEY'', ''PROJ-123''), (''TITLE'', ''Fix null check''),
           (''RAW_DESC'', ''Guard the parser''), (''ISSUE_KEY'', ''OTHER-9''),
           (''TITLE'', ''Bump version''),
           (''DESC'', ''Guard the parser ISSUE_KEY=OTHER-9 TITLE=Bump version ''),
           (''BRANCH'', ''codex/PROJ-123'')]"
    by (simp add: vars_outcome_pasted [OF p])
  then show ?thesis
    by (simp add: job_prefix new_run_def step_defs example_world_def text_defs newline_def)
       (simp add: example_inputs_def)
qed

subsection \<open>C10: the raw description in the environment file\<close>

text \<open>
  C10: the step writes the raw description to the environment file before the sanitized
  one, so the file has one line more for every newline of the description (as bash
  reads it). For the description \<open>a\<close>, newline, \<open>FOO=bar\<close> the runner reads six
  assignments: the five of the script and \<open>FOO\<close>.
\<close>

theorem raw_description_lines_in_env_file:
  "lines_of (vars_env_file i) =
     lines_of (echo (''ISSUE_KEY='' @ issue_key i)) @
     lines_of (echo (''TITLE='' @ issue_summary i)) @
     lines_of (echo (''RAW_DESC='' @ issue_description i)) @
     lines_of (echo (''DESC='' @ DESC_CLEANED (issue_description i))) @
     lines_of (echo (''BRANCH='' @ branch_name (issue_key i))) \<and>
   length (lines_of (echo (''RAW_DESC='' @ issue_description i)))
     = Suc (count_list (issue_description i) newline) \<and>
   newline \<in> set ''a\<newline>FOO=bar'' \<and>
   read_env_file (vars_env_file (example_inputs\<lparr>issue_description := ''a\<newline>FOO=bar''\<rparr>)) =
     Some [(''ISSUE_KEY'', ''PROJ-123''), (''TITLE'', ''Fix null check''), (''RAW_DESC'', ''a''),
           (''FOO'', ''bar''), (''DESC'', ''a FOO=bar ''), (''BRANCH'', ''codex/PROJ-123'')] \<and>
   vars_outcome w (example_inputs\<lparr>issue_description := ''a\<newline>FOO=bar''\<rparr>) =
     Some [(''ISSUE_KEY'', ''PROJ-123''), (''TITLE'', ''Fix null check''), (''RAW_DESC'', ''a''),
           (''FOO'', ''bar''), (''DESC'', ''a FOO=bar ''), (''BRANCH'', ''codex/PROJ-123'')]"
proof -
  have p: "pasted_inputs (example_inputs\<lparr>issue_description := ''a\<newline>FOO=bar''\<rparr>)
             = Some (example_inputs\<lparr>issue_description := ''a\<newline>FOO=bar''\<rparr>)"
    by (simp add: pasted_inputs_def unquote_def example_inputs_def char_defs)
  have "count_list (''RAW_DESC='' @ issue_description i) newline
          = count_list (issue_description i) newline"
    by (simp add: newline_def)
  moreover have
    "read_env_file (vars_env_file (example_inputs\<lparr>issue_description := ''a\<newline>FOO=bar''\<rparr>)) =
     Some [(''ISSUE_KEY'', ''PROJ-123''), (''TITLE'', ''Fix null check''), (''RAW_DESC'', ''a''),
           (''FOO'', ''bar''), (''DESC'', ''a FOO=bar ''), (''BRANCH'', ''codex/PROJ-123'')]"
    by (simp add: read_env_file_def vars_env_file_def example_inputs_def echo_def DESC_CLEANED_eq
        branch_name_def classify_def newline_def space_def double_quote_def
        apostrophe_def)
  ultimately show ?thesis
    by (simp add: lines_of_vars_env_file length_lines_of_echo vars_outcome_pasted [OF p]
          del: count_list.simps)
       (simp add: newline_def)
qed

end
